theory Spec2Isabelle
  imports Main "HOL-Library.Sublist" "HOL-Library.AList"
begin

section \<open>XML documents\<close>

text \<open>
  An element of a parsed document: its tag, its attributes (the dictionary of the
  element, as an association list looked up with \<open>map_of\<close>), its text (absent or a
  string) and its child elements in document order.
\<close>

datatype xml =
  Element (node_tag: string) (attrib: "(string \<times> string) list")
    (node_text: "string option") (children: "xml list")

text \<open>
  A path such as \<^verbatim>\<open>./location/value\<close> is written as the list of its steps,
  \<open>[''location'', ''value'']\<close>: the leading \<^verbatim>\<open>.\<close> is the node the search starts
  from, and the path \<^verbatim>\<open>.\<close> alone is the empty list. Only tag steps occur in
  \<^verbatim>\<open>artifact.py\<close>.
\<close>

type_synonym path = "string list"

text \<open>
  Modelled from the spec: the document helpers of \<^verbatim>\<open>WrappedXml\<close>
  (\<^verbatim>\<open>xml_find\<close>, \<^verbatim>\<open>xml_findall\<close>, \<^verbatim>\<open>get_node_text\<close>,
  \<^verbatim>\<open>set_subnode_text\<close>, \<^verbatim>\<open>make_subelement_with_parents\<close>) are imported from
  \<^verbatim>\<open>_internal\<close>, which is not among the source files. Section 4.1 of the spec:
  find and find-all are read-only traversals that give None or the empty sequence when
  nothing matches; get-text gives the text of a subnode or None if it is absent; set-text
  creates the missing nodes along the path, then sets the text.
\<close>

fun xml_findall :: "path \<Rightarrow> xml \<Rightarrow> xml list" where
  "xml_findall [] e = [e]"
| "xml_findall (t # ts) e =
     concat (map (xml_findall ts) (filter (\<lambda>c. node_tag c = t) (children e)))"

definition xml_find :: "path \<Rightarrow> xml \<Rightarrow> xml option" where
  "xml_find p e = (case xml_findall p e of [] \<Rightarrow> None | n # _ \<Rightarrow> Some n)"

definition get_node_text :: "path \<Rightarrow> xml \<Rightarrow> string option" where
  "get_node_text p e = (case xml_find p e of None \<Rightarrow> None | Some n \<Rightarrow> node_text n)"

definition get_attribute :: "string \<Rightarrow> xml \<Rightarrow> string option" where
  "get_attribute k e = map_of (attrib e) k"

fun update_first :: "('a \<Rightarrow> bool) \<Rightarrow> ('a \<Rightarrow> 'a) \<Rightarrow> 'a list \<Rightarrow> 'a list" where
  "update_first P g [] = []"
| "update_first P g (x # xs) = (if P x then g x # xs else x # update_first P g xs)"

text \<open>
  \<open>with_subelement p g e\<close> walks the steps of \<open>p\<close> from \<open>e\<close>, taking at each step
  the first child with the step's tag and appending a new empty child when there is
  none, and applies \<open>g\<close> to the node it arrives at.
\<close>

fun with_subelement :: "path \<Rightarrow> (xml \<Rightarrow> xml) \<Rightarrow> xml \<Rightarrow> xml" where
  "with_subelement [] g e = g e"
| "with_subelement (t # ts) g e =
     Element (node_tag e) (attrib e) (node_text e)
       (if filter (\<lambda>c. node_tag c = t) (children e) = []
        then children e @ [with_subelement ts g (Element t [] None [])]
        else update_first (\<lambda>c. node_tag c = t) (with_subelement ts g) (children e))"

definition set_text :: "string \<Rightarrow> xml \<Rightarrow> xml" where
  "set_text v e = Element (node_tag e) (attrib e) (Some v) (children e)"

definition set_subnode_text :: "path \<Rightarrow> string \<Rightarrow> xml \<Rightarrow> xml" where
  "set_subnode_text p v e = with_subelement p (set_text v) e"

definition set_attribute :: "string \<Rightarrow> string \<Rightarrow> xml \<Rightarrow> xml" where
  "set_attribute k v e =
     Element (node_tag e) (AList.update k v (attrib e)) (node_text e) (children e)"

section \<open>Errors\<close>

text \<open>
  \<open>Exception\<close> is the \<^verbatim>\<open>Exception(message)\<close> that \<^verbatim>\<open>artifact.py\<close> raises;
  \<open>ReadOnlyWrite\<close> is the failure of a write through a read-only descriptor, for which
  the spec names no exception class.
\<close>

datatype error = Exception string | ReadOnlyWrite

section \<open>Links and the session\<close>

record lims =
  root_uri :: string

text \<open>
  Modelled from the spec: \<^verbatim>\<open>from_link_node\<close> is a method of the factories the
  session holds (\<^verbatim>\<open>lims.files\<close>, \<^verbatim>\<open>lims.control_types\<close>, ...), whose code is not
  among the source files. Sections 3 and 4.2 of the spec: a link is a reference encoded as
  a URI-bearing subnode; reading it gives None if the subnode is absent, and otherwise
  the referenced entity, which the session builds as a shell holding the link. The first
  argument is the factory's entity class, as the function that builds a shell from the
  \<^verbatim>\<open>uri\<close> attribute of the node. Two links with the same uri resolve to equal
  entities.
\<close>

definition from_link_node :: "(string option \<Rightarrow> 'e) \<Rightarrow> xml option \<Rightarrow> 'e option" where
  "from_link_node element_class node =
     (case node of None \<Rightarrow> None | Some n \<Rightarrow> Some (element_class (get_attribute ''uri'' n)))"

datatype stage = Stage (stage_uri: "string option")

datatype control_type = ControlType (control_type_uri: "string option")

section \<open>Field descriptors\<close>

text \<open>
  Modelled from the spec: the descriptors \<^verbatim>\<open>attribute_property\<close>,
  \<^verbatim>\<open>subnode_property\<close>, \<^verbatim>\<open>subnode_link\<close> and \<^verbatim>\<open>subnode_element_list\<close> are
  imported from \<^verbatim>\<open>_internal.props\<close>, which is not among the source files; only their
  uses in \<^verbatim>\<open>artifact.py\<close> are. Section 4.2 of the spec: an attribute property reads an
  XML attribute (of the document root by default) as a string or None; a subnode property
  reads the text of a subnode; a subnode link reads None if the subnode is absent and the
  referenced entity otherwise; a subnode element list reads one wrapper per matching
  child under a container path, in order, and is always read-only as a list. On a write, a
  descriptor that is not read-only calls the write primitive of the document; a read-only
  one raises.
\<close>

datatype descriptor =
  attribute_property string bool
| subnode_property path bool
| subnode_link path bool
| subnode_element_list path string bool

fun readonly :: "descriptor \<Rightarrow> bool" where
  "readonly (attribute_property attribname ro) = ro"
| "readonly (subnode_property p ro) = ro"
| "readonly (subnode_link p ro) = ro"
| "readonly (subnode_element_list p t ro) = True"

definition get_elements :: "path \<Rightarrow> string \<Rightarrow> xml \<Rightarrow> xml list" where
  "get_elements set_path t e =
     (case xml_find set_path e of None \<Rightarrow> [] | Some c \<Rightarrow> xml_findall [t] c)"

text \<open>
  A write through a descriptor gives the exception it raised, if any, and the document
  as it is afterwards. A link is written as the uri of its target.
\<close>

definition descriptor_set :: "descriptor \<Rightarrow> string \<Rightarrow> xml \<Rightarrow> error option \<times> xml" where
  "descriptor_set d v doc =
     (if readonly d then (Some ReadOnlyWrite, doc)
      else (None,
        (case d of
           attribute_property attribname _ \<Rightarrow> set_attribute attribname v doc
         | subnode_property p _ \<Rightarrow> set_subnode_text p v doc
         | subnode_link p _ \<Rightarrow> with_subelement p (set_attribute ''uri'' v) doc
         | subnode_element_list _ _ _ \<Rightarrow> doc)))"

section \<open>artifact.py\<close>

definition QC_PASSED :: string where "QC_PASSED = ''PASSED''"
definition QC_FAILED :: string where "QC_FAILED = ''FAILED''"
definition QC_UNKNOWN :: string where "QC_UNKNOWN = ''UNKNOWN''"

definition STAGE_STATUS_QUEUED :: string where "STAGE_STATUS_QUEUED = ''QUEUED''"
definition STAGE_STATUS_REMOVED :: string where "STAGE_STATUS_REMOVED = ''REMOVED''"
definition STAGE_STATUS_IN_PROGRESS :: string where "STAGE_STATUS_IN_PROGRESS = ''IN_PROGRESS''"

subsection \<open>WorkflowStageHistory and ReagentLabel\<close>

text \<open>
  Both classes wrap one child element of the artifact's document. \<open>status\<close> is
  \<^verbatim>\<open>attribute_property("status")\<close>, \<open>stage\<close> is \<^verbatim>\<open>subnode_link(Stage, ".")\<close>, whose
  subnode is the wrapped element itself, and \<open>ReagentLabel_name\<close> is
  \<^verbatim>\<open>attribute_property("name", readonly=True)\<close>.
\<close>

definition status :: "xml \<Rightarrow> string option" where
  "status h = get_attribute ''status'' h"

definition stage :: "xml \<Rightarrow> stage option" where
  "stage h = from_link_node Stage (xml_find [] h)"

definition ReagentLabel_name_descriptor :: descriptor where
  "ReagentLabel_name_descriptor = attribute_property ''name'' True"

definition ReagentLabel_name :: "xml \<Rightarrow> string option" where
  "ReagentLabel_name l = get_attribute ''name'' l"

subsection \<open>Artifact\<close>

text \<open>
  The state of an artifact: the session, the uri and the loaded document. The name and
  the limsid of an artifact are not part of the state: they are read from the document.
\<close>

record artifact =
  lims :: lims
  uri :: "string option"
  xml_root :: xml

text \<open>
  Modelled from the spec: the \<^verbatim>\<open>name\<close> property of an artifact belongs to
  \<^verbatim>\<open>ClarityElement\<close>, imported from \<^verbatim>\<open>_internal\<close>, which is not among the source
  files. Section 4.4 of the spec: the human-readable name of an entity is read from its
  document under the key \<^verbatim>\<open>name_attribute\<close>, which is \<^verbatim>\<open>"name"\<close> for a class that
  declares no other, as \<^verbatim>\<open>Artifact\<close> does not. The name is the text of the subnode with
  that key and, when there is no such subnode, the attribute of the root with that key;
  it is None when the document carries neither.
\<close>

definition name :: "artifact \<Rightarrow> string option" where
  "name a =
     (case xml_find [''name''] (xml_root a) of
        None \<Rightarrow> get_attribute ''name'' (xml_root a)
      | Some n \<Rightarrow> node_text n)"

text \<open>
  Modelled from the spec: \<^verbatim>\<open>File\<close> is imported from \<^verbatim>\<open>s4.clarity.file\<close>, which
  is not among the source files. A file resolved from a link is the shell of that link;
  \<^verbatim>\<open>File.new_empty(element)\<close> is a new file, with no uri and no name, attached to the
  element it is given.
\<close>

record clarity_file =
  file_uri :: "string option"
  attached_to :: "string option"
  file_name :: "string option"

definition File :: "string option \<Rightarrow> clarity_file" where
  "File u = \<lparr>file_uri = u, attached_to = None, file_name = None\<rparr>"

definition File_new_empty :: "artifact \<Rightarrow> clarity_file" where
  "File_new_empty a = \<lparr>file_uri = None, attached_to = artifact.uri a, file_name = None\<rparr>"

definition workflow_stages :: "artifact \<Rightarrow> xml list" where
  "workflow_stages a = get_elements [''workflow-stages''] ''workflow-stage'' (xml_root a)"

definition reagent_labels :: "artifact \<Rightarrow> xml list" where
  "reagent_labels a = get_elements [] ''reagent-label'' (xml_root a)"

text \<open>
  The \<^verbatim>\<open>file\<close> property. Its first argument \<open>self_name\<close> is the read of
  \<^verbatim>\<open>self.name\<close>, whose code is not among the source files: the property is given for
  any such read, and \<open>name\<close> above is the one the spec describes.
\<close>

definition file_prop :: "(artifact \<Rightarrow> string option) \<Rightarrow> artifact \<Rightarrow> clarity_file option" where
  "file_prop self_name a =
     (let f = from_link_node File
                (xml_find [''{http://genologics.com/ri/file}file''] (xml_root a))
      in if f = None then Some ((File_new_empty a)\<lparr>file_name := self_name a\<rparr>) else f)"

text \<open>
  The two reads of the control type are given with the artifact they leave behind.
  Modelled from the spec: \<^verbatim>\<open>self.xml_find\<close> and the resolution of a link by the
  session are methods whose code is not among the source files. Sections 3 and 4.1 of the
  spec: find is a read-only traversal of the tree, and resolving a link never mutates the
  document the link is read from.
\<close>

definition self_xml_find :: "path \<Rightarrow> artifact \<Rightarrow> xml option \<times> artifact" where
  "self_xml_find p a = (xml_find p (xml_root a), a)"

definition lims_from_link_node ::
  "(string option \<Rightarrow> 'e) \<Rightarrow> xml option \<Rightarrow> artifact \<Rightarrow> 'e option \<times> artifact" where
  "lims_from_link_node element_class node a = (from_link_node element_class node, a)"

definition is_control :: "artifact \<Rightarrow> bool \<times> artifact" where
  "is_control a =
     (case self_xml_find [''control-type''] a of (node, a') \<Rightarrow> (node \<noteq> None, a'))"

definition control_type :: "artifact \<Rightarrow> control_type option \<times> artifact" where
  "control_type a =
     (case self_xml_find [''control-type''] a of
        (node, a') \<Rightarrow> lims_from_link_node ControlType node a')"

fun queued_stages_loop :: "xml list \<Rightarrow> stage option set \<Rightarrow> stage option set" where
  "queued_stages_loop [] queued = queued"
| "queued_stages_loop (stage_history # rest) queued =
     queued_stages_loop rest
       (if status stage_history = Some STAGE_STATUS_QUEUED
        then insert (stage stage_history) queued
        else if status stage_history = Some STAGE_STATUS_REMOVED
                \<or> status stage_history = Some STAGE_STATUS_IN_PROGRESS
        then queued - {stage stage_history}
        else queued)"

definition queued_stages :: "artifact \<Rightarrow> stage option set" where
  "queued_stages a = queued_stages_loop (workflow_stages a) {}"

definition qc :: "artifact \<Rightarrow> bool option" where
  "qc a =
     (let qctext = get_node_text [''qc-flag''] (xml_root a)
      in if qctext = Some QC_PASSED then Some True
         else if qctext = Some QC_FAILED then Some False
         else None)"

definition set_qc_flag :: "bool option \<Rightarrow> artifact \<Rightarrow> artifact" where
  "set_qc_flag v a =
     (let qc = (case v of None \<Rightarrow> QC_UNKNOWN
                | Some b \<Rightarrow> if b then QC_PASSED else QC_FAILED)
      in a\<lparr>xml_root := set_subnode_text [''qc-flag''] qc (xml_root a)\<rparr>)"

definition qc_setter :: "bool option \<Rightarrow> artifact \<Rightarrow> artifact" where
  "qc_setter v a = set_qc_flag v a"

definition qc_passed :: "artifact \<Rightarrow> bool" where
  "qc_passed a = (get_node_text [''qc-flag''] (xml_root a) = Some QC_PASSED)"

definition qc_failed :: "artifact \<Rightarrow> bool" where
  "qc_failed a = (get_node_text [''qc-flag''] (xml_root a) = Some QC_FAILED)"

definition reagent_label_names :: "artifact \<Rightarrow> string option list" where
  "reagent_label_names a = map ReagentLabel_name (reagent_labels a)"

definition reagent_label_name :: "artifact \<Rightarrow> error + string option" where
  "reagent_label_name a =
     (let label_names = reagent_label_names a;
          num_labels = length label_names
      in if num_labels > 1 then Inl (Exception ''Artifact has multiple reagent labels.'')
         else if num_labels = 0 then Inr None
         else Inr (label_names ! 0))"

section \<open>The element factory\<close>

text \<open>
  Modelled from the spec: \<^verbatim>\<open>ElementFactory\<close> and \<^verbatim>\<open>BatchFlags\<close> are imported
  from \<^verbatim>\<open>_internal.factory\<close>, which is not among the source files; only their test
  is. Section 4.4 of the spec: a factory is constructed with the session and an entity
  class. Its capability flags are read once from the constant the class declares, a set of
  bit flags, and an absent declaration is no batch capability and no query capability.
  The four predicates are pure predicates over the stored flags. \<^verbatim>\<open>name_attribute\<close>
  is \<^verbatim>\<open>"name"\<close> unless the class overrides it. \<^verbatim>\<open>uri\<close> is the collection endpoint:
  the lower-cased class name with \<^verbatim>\<open>"s"\<close> appended, unless the class declares a request
  path, which is then used verbatim.

  The numeric values of the flags are not given, so a flag combination is the set of the
  flags it holds; every value of that type is a recognised combination. The endpoint is
  taken to follow the session's root uri and a \<^verbatim>\<open>/\<close>. Lower-casing is that of the ASCII
  letters.
\<close>

datatype batch_flag = BATCH_CREATE | BATCH_GET | BATCH_UPDATE | QUERY

definition NONE :: "batch_flag set" where
  "NONE = {}"

definition BATCH_ALL :: "batch_flag set" where
  "BATCH_ALL = {BATCH_CREATE, BATCH_GET, BATCH_UPDATE, QUERY}"

text \<open>
  An entity class, as far as a factory reads it: its \<^verbatim>\<open>__name__\<close> and the three
  constants it may declare.
\<close>

record entity_class =
  class_name :: string
  BATCH_FLAGS :: "batch_flag set option"
  NAME_ATTRIBUTE :: "string option"
  REQUEST_PATH :: "string option"

definition lower_char :: "char \<Rightarrow> char" where
  "lower_char c =
     (let n = (of_char c :: nat) in if 65 \<le> n \<and> n \<le> 90 then char_of (n + 32) else c)"

definition lower :: "string \<Rightarrow> string" where
  "lower s = map lower_char s"

record element_factory =
  factory_lims :: lims
  element_class :: entity_class
  batch_flags :: "batch_flag set"
  name_attribute :: string
  uri :: string

definition ElementFactory :: "lims \<Rightarrow> entity_class \<Rightarrow> element_factory" where
  "ElementFactory l c =
     \<lparr>factory_lims = l,
      element_class = c,
      batch_flags = (case BATCH_FLAGS c of None \<Rightarrow> NONE | Some fl \<Rightarrow> fl),
      name_attribute = (case NAME_ATTRIBUTE c of None \<Rightarrow> ''name'' | Some n \<Rightarrow> n),
      uri = root_uri l @ ''/'' @
        (case REQUEST_PATH c of None \<Rightarrow> lower (class_name c) @ ''s'' | Some p \<Rightarrow> p)\<rparr>"

definition can_batch_create :: "element_factory \<Rightarrow> bool" where
  "can_batch_create f = (BATCH_CREATE \<in> batch_flags f)"

definition can_batch_get :: "element_factory \<Rightarrow> bool" where
  "can_batch_get f = (BATCH_GET \<in> batch_flags f)"

definition can_batch_update :: "element_factory \<Rightarrow> bool" where
  "can_batch_update f = (BATCH_UPDATE \<in> batch_flags f)"

definition can_query :: "element_factory \<Rightarrow> bool" where
  "can_query f = (QUERY \<in> batch_flags f)"

subsection \<open>The fixtures of test\_element\_factory.py\<close>

definition LocalLIMS :: lims where
  "LocalLIMS = \<lparr>root_uri = ''http://localhost/api/v2''\<rparr>"

definition TestElement :: entity_class where
  "TestElement =
     \<lparr>class_name = ''TestElement'', BATCH_FLAGS = None, NAME_ATTRIBUTE = None,
      REQUEST_PATH = None\<rparr>"

subsection \<open>Example artifacts\<close>

definition UNIVERSAL_TAG :: string where
  "UNIVERSAL_TAG = ''{http://genologics.com/ri/artifact}artifact''"

definition example_artifact :: "xml list \<Rightarrow> artifact" where
  "example_artifact nodes =
     \<lparr>lims = LocalLIMS,
      uri = Some ''http://localhost/api/v2/artifacts/2-1'',
      xml_root = Element UNIVERSAL_TAG [(''limsid'', ''2-1'')] None nodes\<rparr>"

definition workflow_stage_node :: "string \<Rightarrow> string \<Rightarrow> xml" where
  "workflow_stage_node u st =
     Element ''workflow-stage'' [(''uri'', u), (''status'', st)] None []"

text \<open>The history of the spec's scenario: stage A queued, stage B queued, stage A in progress.\<close>

definition scenario_artifact :: artifact where
  "scenario_artifact =
     example_artifact
       [Element ''workflow-stages'' [] None
          [workflow_stage_node ''A'' ''QUEUED'',
           workflow_stage_node ''B'' ''QUEUED'',
           workflow_stage_node ''A'' ''IN_PROGRESS'']]"

definition reagent_label_node :: "string \<Rightarrow> xml" where
  "reagent_label_node n = Element ''reagent-label'' [(''name'', n)] None []"

definition name_node :: "string \<Rightarrow> xml" where
  "name_node n = Element ''name'' [] (Some n) []"

section \<open>The spec's reading of queued\_stages\<close>

text \<open>
  Section 4.5 of the spec: a stage is included if its most recent relevant history entry
  has status QUEUED, the relevant entries being those with status QUEUED, REMOVED or
  IN\_PROGRESS. \<open>most_recent_relevant hs s\<close> is the last entry of the history \<open>hs\<close>
  that is relevant and is for the stage \<open>s\<close>, if there is one.
\<close>

definition relevant :: "xml \<Rightarrow> bool" where
  "relevant h =
     (status h = Some STAGE_STATUS_QUEUED \<or> status h = Some STAGE_STATUS_REMOVED
      \<or> status h = Some STAGE_STATUS_IN_PROGRESS)"

definition most_recent_relevant :: "xml list \<Rightarrow> stage option \<Rightarrow> xml option" where
  "most_recent_relevant hs s = find (\<lambda>h. stage h = s \<and> relevant h) (rev hs)"

section \<open>Lemmas on documents\<close>

lemma xml_find_Nil: "xml_find [] e = Some e"
  by (simp add: xml_find_def)

lemma xml_findall_single:
  "xml_findall [t] e = filter (\<lambda>c. node_tag c = t) (children e)"
proof -
  have "concat (map (xml_findall []) xs) = xs" for xs
    by (induction xs) simp_all
  then show ?thesis by simp
qed

lemma get_elements_root:
  "get_elements [] t e = filter (\<lambda>c. node_tag c = t) (children e)"
  by (simp add: get_elements_def xml_find_Nil xml_findall_single del: xml_findall.simps)

lemma node_tag_with_subelement:
  "(\<And>n. node_tag (g n) = node_tag n) \<Longrightarrow> node_tag (with_subelement p g e) = node_tag e"
  by (cases p) simp_all

lemma filter_update_first:
  "(\<And>x. P (h x) = P x) \<Longrightarrow>
   filter P (update_first P h xs) = (case filter P xs of [] \<Rightarrow> [] | y # ys \<Rightarrow> h y # ys)"
  by (induction xs) auto

text \<open>
  After \<open>with_subelement p g\<close>, the first node that the path \<open>p\<close> finds is one that
  \<open>g\<close> was applied to, whenever \<open>g\<close> leaves tags alone.
\<close>

lemma xml_findall_with_subelement:
  assumes tag: "\<And>n. node_tag (g n) = node_tag n"
  shows "\<exists>n rest. xml_findall p (with_subelement p g e) = g n # rest"
proof (induction p arbitrary: e)
  case Nil
  show ?case by auto
next
  case (Cons t ts)
  let ?P = "\<lambda>c. node_tag c = t"
  let ?h = "with_subelement ts g"
  have keep: "\<And>x. ?P (?h x) = ?P x"
    using tag by (simp add: node_tag_with_subelement)
  show ?case
  proof (cases "filter ?P (children e)")
    case Nil
    obtain n rest where "xml_findall ts (?h (Element t [] None [])) = g n # rest"
      using Cons.IH by blast
    with Nil keep show ?thesis by auto
  next
    case (Cons y ys)
    obtain n rest where "xml_findall ts (?h y) = g n # rest"
      using Cons.IH by blast
    with Cons keep show ?thesis
      by (auto simp: filter_update_first)
  qed
qed

lemma get_node_text_set_subnode_text:
  "get_node_text p (set_subnode_text p v e) = Some v"
proof -
  obtain n rest where "xml_findall p (with_subelement p (set_text v) e) = set_text v n # rest"
    using xml_findall_with_subelement [of "set_text v" p e] by (auto simp: set_text_def)
  then show ?thesis
    by (simp add: get_node_text_def xml_find_def set_subnode_text_def set_text_def)
qed

section \<open>The QC flag\<close>

lemma qc_text_after_set:
  "get_node_text [''qc-flag''] (xml_root (qc_setter v a)) =
     Some (case v of None \<Rightarrow> QC_UNKNOWN | Some b \<Rightarrow> if b then QC_PASSED else QC_FAILED)"
  by (simp add: qc_setter_def set_qc_flag_def get_node_text_set_subnode_text)

lemma qc_of_text:
  "qc a =
     (if get_node_text [''qc-flag''] (xml_root a) = Some ''PASSED'' then Some True
      else if get_node_text [''qc-flag''] (xml_root a) = Some ''FAILED'' then Some False
      else None)"
  by (simp add: qc_def QC_PASSED_def QC_FAILED_def Let_def)

lemma qc_absent:
  "xml_find [''qc-flag''] (xml_root a) = None \<Longrightarrow> qc a = None"
  by (simp add: qc_of_text get_node_text_def)

text \<open>
  C5. On every artifact, setting \<open>qc\<close> to True and reading it back gives True, and the
  text of the \<^verbatim>\<open>qc-flag\<close> subnode is then \<^verbatim>\<open>PASSED\<close>; setting None gives None
  and the text \<^verbatim>\<open>UNKNOWN\<close>; setting False gives False and the text \<^verbatim>\<open>FAILED\<close>.
  An artifact whose document has no \<^verbatim>\<open>qc-flag\<close> subnode reads as None.
\<close>

theorem qc_set_then_read:
  "qc (qc_setter (Some True) a) = Some True
   \<and> get_node_text [''qc-flag''] (xml_root (qc_setter (Some True) a)) = Some ''PASSED''
   \<and> qc (qc_setter None a) = None
   \<and> get_node_text [''qc-flag''] (xml_root (qc_setter None a)) = Some ''UNKNOWN''
   \<and> qc (qc_setter (Some False) a) = Some False
   \<and> get_node_text [''qc-flag''] (xml_root (qc_setter (Some False) a)) = Some ''FAILED''
   \<and> (xml_find [''qc-flag''] (xml_root a) = None \<longrightarrow> qc a = None)"
proof -
  have written: "\<And>v. get_node_text [''qc-flag''] (xml_root (qc_setter v a)) =
      Some (case v of None \<Rightarrow> ''UNKNOWN'' | Some b \<Rightarrow> if b then ''PASSED'' else ''FAILED'')"
    by (simp add: qc_text_after_set QC_PASSED_def QC_FAILED_def QC_UNKNOWN_def
        split: option.split)
  show ?thesis
    using qc_absent [of a] by (simp add: qc_of_text written)
qed

theorem qc_set_then_read_witness:
  "xml_find [''qc-flag''] (xml_root (example_artifact [])) = None
   \<and> qc (example_artifact []) = None
   \<and> qc (qc_setter (Some True) (example_artifact [])) = Some True
   \<and> qc (qc_setter (Some False) (example_artifact [])) = Some False"
  using qc_set_then_read [of "example_artifact []"]
  by (simp add: example_artifact_def xml_find_def)

section \<open>Queued stages\<close>

lemma queued_stages_loop_append:
  "queued_stages_loop (xs @ ys) q = queued_stages_loop ys (queued_stages_loop xs q)"
  by (induction xs arbitrary: q) simp_all

lemma most_recent_relevant_snoc:
  "most_recent_relevant (hs @ [h]) s =
     (if stage h = s \<and> relevant h then Some h else most_recent_relevant hs s)"
  by (simp add: most_recent_relevant_def)

lemma queued_stages_loop_spec:
  "queued_stages_loop hs {} =
     {s. \<exists>h. most_recent_relevant hs s = Some h \<and> status h = Some STAGE_STATUS_QUEUED}"
proof (induction hs rule: rev_induct)
  case Nil
  show ?case by (simp add: most_recent_relevant_def)
next
  case (snoc h hs)
  have distinct_status:
    "STAGE_STATUS_QUEUED \<noteq> STAGE_STATUS_REMOVED"
    "STAGE_STATUS_QUEUED \<noteq> STAGE_STATUS_IN_PROGRESS"
    by (simp_all add: STAGE_STATUS_QUEUED_def STAGE_STATUS_REMOVED_def
        STAGE_STATUS_IN_PROGRESS_def)
  show ?case
    using distinct_status
    by (auto simp: queued_stages_loop_append snoc.IH most_recent_relevant_snoc relevant_def)
qed

lemma queued_stages_scenario:
  "queued_stages scenario_artifact = {Some (Stage (Some ''B''))}"
  by (auto simp: queued_stages_def workflow_stages_def scenario_artifact_def
      example_artifact_def get_elements_def xml_find_def workflow_stage_node_def status_def
      stage_def from_link_node_def get_attribute_def STAGE_STATUS_QUEUED_def
      STAGE_STATUS_REMOVED_def STAGE_STATUS_IN_PROGRESS_def)

text \<open>
  C6. On every artifact, \<open>queued_stages\<close> is exactly the set of the stages whose most
  recent history entry with status QUEUED, REMOVED or IN\_PROGRESS has status QUEUED. For
  the history stage A queued, stage B queued, stage A in progress, it is the set that
  holds stage B alone.
\<close>

theorem queued_stages_most_recent:
  "queued_stages a =
     {s. \<exists>h. most_recent_relevant (workflow_stages a) s = Some h
              \<and> status h = Some STAGE_STATUS_QUEUED}
   \<and> map (\<lambda>h. (stage h, status h)) (workflow_stages scenario_artifact) =
       [(Some (Stage (Some ''A'')), Some ''QUEUED''),
        (Some (Stage (Some ''B'')), Some ''QUEUED''),
        (Some (Stage (Some ''A'')), Some ''IN_PROGRESS'')]
   \<and> queued_stages scenario_artifact = {Some (Stage (Some ''B''))}"
proof -
  have "map (\<lambda>h. (stage h, status h)) (workflow_stages scenario_artifact) =
       [(Some (Stage (Some ''A'')), Some ''QUEUED''),
        (Some (Stage (Some ''B'')), Some ''QUEUED''),
        (Some (Stage (Some ''A'')), Some ''IN_PROGRESS'')]"
    by (simp add: workflow_stages_def scenario_artifact_def example_artifact_def
        get_elements_def xml_find_def workflow_stage_node_def status_def stage_def
        from_link_node_def get_attribute_def)
  moreover have "queued_stages a =
     {s. \<exists>h. most_recent_relevant (workflow_stages a) s = Some h
              \<and> status h = Some STAGE_STATUS_QUEUED}"
    by (simp add: queued_stages_def queued_stages_loop_spec)
  ultimately show ?thesis
    using queued_stages_scenario by blast
qed

section \<open>Reagent labels\<close>

lemma reagent_labels_example:
  "reagent_labels (example_artifact ls) = filter (\<lambda>c. node_tag c = ''reagent-label'') ls"
  by (simp add: reagent_labels_def get_elements_root example_artifact_def)

text \<open>
  C7. On every artifact, reading \<open>reagent_label_name\<close> raises when the artifact has more
  than one reagent label, gives None, and no error, when it has none, and gives the name
  of the label when it has exactly one.
\<close>

theorem reagent_label_name_cases:
  "(length (reagent_labels a) > 1 \<longrightarrow>
      reagent_label_name a = Inl (Exception ''Artifact has multiple reagent labels.''))
   \<and> (reagent_labels a = [] \<longrightarrow> reagent_label_name a = Inr None)
   \<and> (reagent_labels a = [l] \<longrightarrow> reagent_label_name a = Inr (ReagentLabel_name l))"
  by (simp add: reagent_label_name_def reagent_label_names_def Let_def)

theorem reagent_label_name_cases_witness:
  "length (reagent_labels
      (example_artifact [reagent_label_node ''A1'', reagent_label_node ''B2''])) > 1
   \<and> reagent_label_name (example_artifact [reagent_label_node ''A1'', reagent_label_node ''B2''])
       = Inl (Exception ''Artifact has multiple reagent labels.'')
   \<and> reagent_labels (example_artifact []) = []
   \<and> reagent_label_name (example_artifact []) = Inr None
   \<and> reagent_labels (example_artifact [reagent_label_node ''A1'']) = [reagent_label_node ''A1'']
   \<and> reagent_label_name (example_artifact [reagent_label_node ''A1'']) = Inr (Some ''A1'')"
  using reagent_label_name_cases
          [of "example_artifact [reagent_label_node ''A1'', reagent_label_node ''B2'']"]
        reagent_label_name_cases [of "example_artifact []"]
        reagent_label_name_cases
          [of "example_artifact [reagent_label_node ''A1'']" "reagent_label_node ''A1''"]
  by (simp add: reagent_labels_example reagent_label_node_def ReagentLabel_name_def
      get_attribute_def)

section \<open>Read-only descriptors\<close>

text \<open>
  C8. For every descriptor that is read-only, such as \<open>ReagentLabel.name\<close>, every write
  through the descriptor raises and leaves the document as it was.
\<close>

theorem readonly_write_raises:
  "readonly d \<Longrightarrow> descriptor_set d v doc = (Some ReadOnlyWrite, doc)"
  by (simp add: descriptor_set_def)

theorem readonly_write_raises_witness:
  "readonly ReagentLabel_name_descriptor
   \<and> descriptor_set ReagentLabel_name_descriptor ''B2'' (reagent_label_node ''A1'')
       = (Some ReadOnlyWrite, reagent_label_node ''A1'')
   \<and> ReagentLabel_name (reagent_label_node ''A1'') = Some ''A1''"
  using readonly_write_raises
          [of ReagentLabel_name_descriptor "''B2''" "reagent_label_node ''A1''"]
  by (simp add: ReagentLabel_name_descriptor_def ReagentLabel_name_def reagent_label_node_def
      get_attribute_def)

section \<open>The file and the control type of an artifact\<close>

text \<open>
  C9. On every artifact, the \<open>file\<close> property is never None: when the document has no
  file link subnode, it is a new empty file whose name is the name of the artifact, that
  is, what reading \<^verbatim>\<open>self.name\<close> gives on that artifact, whatever that read is.
\<close>

theorem file_never_None:
  "(\<exists>f. file_prop self_name a = Some f)
   \<and> (xml_find [''{http://genologics.com/ri/file}file''] (xml_root a) = None \<longrightarrow>
        file_prop self_name a = Some ((File_new_empty a)\<lparr>file_name := self_name a\<rparr>)
        \<and> (\<exists>f. file_prop self_name a = Some f \<and> file_name f = self_name a
                \<and> file_uri f = None))"
  by (simp add: file_prop_def from_link_node_def File_new_empty_def Let_def
      split: option.split)

theorem file_never_None_witness:
  "xml_find [''{http://genologics.com/ri/file}file''] (xml_root (example_artifact [])) = None
   \<and> name (example_artifact []) = None
   \<and> file_prop name (example_artifact []) =
       Some ((File_new_empty (example_artifact []))\<lparr>file_name := None\<rparr>)
   \<and> xml_find [''{http://genologics.com/ri/file}file'']
        (xml_root (example_artifact [name_node ''sample-1''])) = None
   \<and> name (example_artifact [name_node ''sample-1'']) = Some ''sample-1''
   \<and> file_prop name (example_artifact [name_node ''sample-1'']) =
       Some ((File_new_empty (example_artifact [name_node ''sample-1'']))
              \<lparr>file_name := Some ''sample-1''\<rparr>)"
  using file_never_None [of name "example_artifact []"]
        file_never_None [of name "example_artifact [name_node ''sample-1'']"]
  by (simp add: example_artifact_def xml_find_def name_def name_node_def get_attribute_def)

text \<open>
  C10. On every artifact, \<open>is_control\<close> is True if and only if the document has a
  \<^verbatim>\<open>control-type\<close> subnode: it is True exactly when \<open>control_type\<close> resolves from
  a link node that exists, and False exactly when the subnode is absent. Reading either
  property leaves the artifact, and so its document, as it was.
\<close>

theorem is_control_iff_control_type:
  "fst (is_control a) = (xml_find [''control-type''] (xml_root a) \<noteq> None)
   \<and> fst (is_control a) =
       (\<exists>n. xml_find [''control-type''] (xml_root a) = Some n
            \<and> fst (control_type a) = Some (ControlType (get_attribute ''uri'' n)))
   \<and> (\<not> fst (is_control a)) = (xml_find [''control-type''] (xml_root a) = None)
   \<and> (\<not> fst (is_control a)) = (fst (control_type a) = None)
   \<and> snd (is_control a) = a
   \<and> snd (control_type a) = a
   \<and> xml_root (snd (is_control a)) = xml_root a
   \<and> xml_root (snd (control_type a)) = xml_root a"
  by (auto simp: is_control_def control_type_def self_xml_find_def lims_from_link_node_def
      from_link_node_def split: option.split)

section \<open>The element factory\<close>

lemmas can_defs = can_batch_create_def can_batch_get_def can_batch_update_def can_query_def

lemma batch_flags_ElementFactory:
  "batch_flags (ElementFactory l c) = (case BATCH_FLAGS c of None \<Rightarrow> {} | Some fl \<Rightarrow> fl)"
  by (simp add: ElementFactory_def NONE_def split: option.split)

lemma lower_TestElement: "lower ''TestElement'' = ''testelement''"
  by code_simp

text \<open>
  C1. For every entity class that declares no \<^verbatim>\<open>BATCH_FLAGS\<close>, the factory built for
  it answers False to \<open>can_batch_create\<close>, \<open>can_batch_get\<close>, \<open>can_batch_update\<close> and
  \<open>can_query\<close>.
\<close>

theorem default_batch_flags:
  "BATCH_FLAGS c = None \<Longrightarrow>
     \<not> can_batch_create (ElementFactory l c) \<and> \<not> can_batch_get (ElementFactory l c)
     \<and> \<not> can_batch_update (ElementFactory l c) \<and> \<not> can_query (ElementFactory l c)"
  by (simp add: can_defs batch_flags_ElementFactory)

theorem default_batch_flags_witness:
  "BATCH_FLAGS TestElement = None
   \<and> \<not> can_batch_create (ElementFactory LocalLIMS TestElement)
   \<and> \<not> can_batch_get (ElementFactory LocalLIMS TestElement)
   \<and> \<not> can_batch_update (ElementFactory LocalLIMS TestElement)
   \<and> \<not> can_query (ElementFactory LocalLIMS TestElement)"
  using default_batch_flags [of TestElement LocalLIMS]
  by (simp add: TestElement_def)

text \<open>
  C2. For each of the four flags, an entity class whose \<^verbatim>\<open>BATCH_FLAGS\<close> is exactly
  that flag gives a factory that answers True to the predicate of the flag and False to
  the other three; \<^verbatim>\<open>BatchFlags.BATCH_ALL\<close> gives True four times and
  \<^verbatim>\<open>BatchFlags.NONE\<close> gives False four times.
\<close>

theorem declared_batch_flags:
  "(BATCH_FLAGS c = Some {flag} \<longrightarrow>
      can_batch_create (ElementFactory l c) = (flag = BATCH_CREATE)
      \<and> can_batch_get (ElementFactory l c) = (flag = BATCH_GET)
      \<and> can_batch_update (ElementFactory l c) = (flag = BATCH_UPDATE)
      \<and> can_query (ElementFactory l c) = (flag = QUERY))
   \<and> (BATCH_FLAGS c = Some BATCH_ALL \<longrightarrow>
      can_batch_create (ElementFactory l c) \<and> can_batch_get (ElementFactory l c)
      \<and> can_batch_update (ElementFactory l c) \<and> can_query (ElementFactory l c))
   \<and> (BATCH_FLAGS c = Some NONE \<longrightarrow>
      \<not> can_batch_create (ElementFactory l c) \<and> \<not> can_batch_get (ElementFactory l c)
      \<and> \<not> can_batch_update (ElementFactory l c) \<and> \<not> can_query (ElementFactory l c))"
  by (auto simp: can_defs batch_flags_ElementFactory BATCH_ALL_def NONE_def)

theorem declared_batch_flags_witness:
  "BATCH_FLAGS (TestElement\<lparr>BATCH_FLAGS := Some {BATCH_CREATE}\<rparr>) = Some {BATCH_CREATE}
   \<and> can_batch_create (ElementFactory LocalLIMS (TestElement\<lparr>BATCH_FLAGS := Some {BATCH_CREATE}\<rparr>))
   \<and> \<not> can_batch_get (ElementFactory LocalLIMS (TestElement\<lparr>BATCH_FLAGS := Some {BATCH_CREATE}\<rparr>))
   \<and> \<not> can_batch_update (ElementFactory LocalLIMS (TestElement\<lparr>BATCH_FLAGS := Some {BATCH_CREATE}\<rparr>))
   \<and> \<not> can_query (ElementFactory LocalLIMS (TestElement\<lparr>BATCH_FLAGS := Some {BATCH_CREATE}\<rparr>))
   \<and> can_batch_get (ElementFactory LocalLIMS (TestElement\<lparr>BATCH_FLAGS := Some {BATCH_GET}\<rparr>))
   \<and> \<not> can_batch_create (ElementFactory LocalLIMS (TestElement\<lparr>BATCH_FLAGS := Some {BATCH_GET}\<rparr>))
   \<and> can_batch_update (ElementFactory LocalLIMS (TestElement\<lparr>BATCH_FLAGS := Some {BATCH_UPDATE}\<rparr>))
   \<and> \<not> can_query (ElementFactory LocalLIMS (TestElement\<lparr>BATCH_FLAGS := Some {BATCH_UPDATE}\<rparr>))
   \<and> can_query (ElementFactory LocalLIMS (TestElement\<lparr>BATCH_FLAGS := Some {QUERY}\<rparr>))
   \<and> \<not> can_batch_update (ElementFactory LocalLIMS (TestElement\<lparr>BATCH_FLAGS := Some {QUERY}\<rparr>))
   \<and> BATCH_FLAGS (TestElement\<lparr>BATCH_FLAGS := Some BATCH_ALL\<rparr>) = Some BATCH_ALL
   \<and> can_batch_create (ElementFactory LocalLIMS (TestElement\<lparr>BATCH_FLAGS := Some BATCH_ALL\<rparr>))
   \<and> can_batch_get (ElementFactory LocalLIMS (TestElement\<lparr>BATCH_FLAGS := Some BATCH_ALL\<rparr>))
   \<and> can_batch_update (ElementFactory LocalLIMS (TestElement\<lparr>BATCH_FLAGS := Some BATCH_ALL\<rparr>))
   \<and> can_query (ElementFactory LocalLIMS (TestElement\<lparr>BATCH_FLAGS := Some BATCH_ALL\<rparr>))
   \<and> BATCH_FLAGS (TestElement\<lparr>BATCH_FLAGS := Some NONE\<rparr>) = Some NONE
   \<and> \<not> can_batch_create (ElementFactory LocalLIMS (TestElement\<lparr>BATCH_FLAGS := Some NONE\<rparr>))
   \<and> \<not> can_batch_get (ElementFactory LocalLIMS (TestElement\<lparr>BATCH_FLAGS := Some NONE\<rparr>))
   \<and> \<not> can_batch_update (ElementFactory LocalLIMS (TestElement\<lparr>BATCH_FLAGS := Some NONE\<rparr>))
   \<and> \<not> can_query (ElementFactory LocalLIMS (TestElement\<lparr>BATCH_FLAGS := Some NONE\<rparr>))"
  using declared_batch_flags
          [of "TestElement\<lparr>BATCH_FLAGS := Some {BATCH_CREATE}\<rparr>" BATCH_CREATE LocalLIMS]
        declared_batch_flags
          [of "TestElement\<lparr>BATCH_FLAGS := Some {BATCH_GET}\<rparr>" BATCH_GET LocalLIMS]
        declared_batch_flags
          [of "TestElement\<lparr>BATCH_FLAGS := Some {BATCH_UPDATE}\<rparr>" BATCH_UPDATE LocalLIMS]
        declared_batch_flags
          [of "TestElement\<lparr>BATCH_FLAGS := Some {QUERY}\<rparr>" QUERY LocalLIMS]
        declared_batch_flags
          [of "TestElement\<lparr>BATCH_FLAGS := Some BATCH_ALL\<rparr>" QUERY LocalLIMS]
        declared_batch_flags
          [of "TestElement\<lparr>BATCH_FLAGS := Some NONE\<rparr>" QUERY LocalLIMS]
  by simp

text \<open>
  C3. For every entity class, the uri of the factory ends with the \<^verbatim>\<open>REQUEST_PATH\<close>
  the class declares, as it is written, when it declares one, and otherwise with the
  lower-cased class name followed by the one character \<^verbatim>\<open>s\<close>: for the class
  \<^verbatim>\<open>TestElement\<close> with no request path, with \<^verbatim>\<open>testelements\<close>.
\<close>

theorem uri_ends_with_request_path:
  "(REQUEST_PATH c = Some p \<longrightarrow> suffix p (uri (ElementFactory l c)))
   \<and> (REQUEST_PATH c = None \<longrightarrow>
        suffix (lower (class_name c) @ ''s'') (uri (ElementFactory l c)))"
  by (simp add: ElementFactory_def suffix_def)

theorem uri_ends_with_request_path_witness:
  "REQUEST_PATH (TestElement\<lparr>REQUEST_PATH := Some ''test/path''\<rparr>) = Some ''test/path''
   \<and> suffix ''test/path''
        (uri (ElementFactory LocalLIMS (TestElement\<lparr>REQUEST_PATH := Some ''test/path''\<rparr>)))
   \<and> REQUEST_PATH TestElement = None
   \<and> suffix ''testelements'' (uri (ElementFactory LocalLIMS TestElement))"
  using uri_ends_with_request_path
          [of "TestElement\<lparr>REQUEST_PATH := Some ''test/path''\<rparr>" "''test/path''" LocalLIMS]
        uri_ends_with_request_path [of TestElement "''test/path''" LocalLIMS]
        lower_TestElement
  by (simp add: TestElement_def)

text \<open>
  C4. For every entity class, the \<open>name_attribute\<close> of the factory is the string
  \<^verbatim>\<open>name\<close> when the class declares no \<^verbatim>\<open>NAME_ATTRIBUTE\<close>, and is the declared
  value when it declares one.
\<close>

theorem name_attribute_default_or_declared:
  "(NAME_ATTRIBUTE c = None \<longrightarrow> name_attribute (ElementFactory l c) = ''name'')
   \<and> (NAME_ATTRIBUTE c = Some n \<longrightarrow> name_attribute (ElementFactory l c) = n)"
  by (simp add: ElementFactory_def)

theorem name_attribute_default_or_declared_witness:
  "NAME_ATTRIBUTE TestElement = None
   \<and> name_attribute (ElementFactory LocalLIMS TestElement) = ''name''
   \<and> NAME_ATTRIBUTE (TestElement\<lparr>NAME_ATTRIBUTE := Some ''test_name''\<rparr>) = Some ''test_name''
   \<and> name_attribute
        (ElementFactory LocalLIMS (TestElement\<lparr>NAME_ATTRIBUTE := Some ''test_name''\<rparr>))
       = ''test_name''"
  using name_attribute_default_or_declared [of TestElement LocalLIMS "''test_name''"]
        name_attribute_default_or_declared
          [of "TestElement\<lparr>NAME_ATTRIBUTE := Some ''test_name''\<rparr>" LocalLIMS "''test_name''"]
  by (simp add: TestElement_def)

end
